theory Spec2Isabelle
  imports Complex_Main "HOL-Library.Multiset" "HOL-Library.List_Lexorder"
    "HOL-Library.Char_ord"
begin

section \<open>Fleet dashboard (src/fleet.jsx): values\<close>

text \<open>
  A JavaScript number is NaN, an infinity or a finite value. Finite values are kept as
  exact rationals: the rounding of IEEE doubles and the sign of zero are not represented.
  A numeric field that a document lacks reads as \<open>undefined\<close>, which every operation
  modelled here (\<open>\<ge>\<close>, \<open>>\<close>, \<open><\<close>, \<open>/\<close>, \<open>||\<close>) treats the way it treats NaN.
\<close>

datatype jsnum = NaN | NegInf | Fin rat | PosInf

datatype jsval = Str string | Num jsnum

text \<open>The relational operators: a comparison with NaN is false.\<close>

fun js_lt :: "jsnum \<Rightarrow> jsnum \<Rightarrow> bool" where
  "js_lt NaN _ = False"
| "js_lt _ NaN = False"
| "js_lt (Fin x) (Fin y) = (x < y)"
| "js_lt NegInf NegInf = False"
| "js_lt NegInf _ = True"
| "js_lt PosInf _ = False"
| "js_lt (Fin _) PosInf = True"
| "js_lt (Fin _) NegInf = False"

definition js_gt :: "jsnum \<Rightarrow> jsnum \<Rightarrow> bool" where
  "js_gt a b = js_lt b a"

definition js_ge :: "jsnum \<Rightarrow> jsnum \<Rightarrow> bool" where
  "js_ge a b = (a \<noteq> NaN \<and> b \<noteq> NaN \<and> \<not> js_lt a b)"

definition js_le :: "jsnum \<Rightarrow> jsnum \<Rightarrow> bool" where
  "js_le a b = (a \<noteq> NaN \<and> b \<noteq> NaN \<and> \<not> js_lt b a)"










definition falsy_str :: "string \<Rightarrow> bool" where
  "falsy_str s = (s = [])"

section \<open>Records\<close>

text \<open>
  The form state \<open>newVehicle\<close> and the payload handed to \<open>addDoc\<close>. Text fields hold
  strings and numeric fields numbers, as the form and the sample data write them;
  \<open>year\<close> starts as the empty string. The field \<open>make\<close> is named \<open>make_field\<close>
  (a record reserves the name \<open>make\<close>). \<open>model\<close> is optional because the ordering
  guards a missing one (\<open>a.model || ''\<close>): \<open>None\<close> is a document without that field.
\<close>

record draft =
  make_field :: string
  model :: "string option"
  year :: jsval
  vin :: string
  mileage :: jsnum
  nextServiceMileage :: jsnum
  fuelType :: string
  status :: string

text \<open>A fetched vehicle: \<open>{ id: doc.id, ...doc.data() }\<close>, with the server's timestamp.\<close>

record vehicle = draft +
  id :: nat
  createdAt :: nat

text \<open>The seed data of \<open>handleLoadSampleData\<close> (lines 174-187).\<close>

definition sampleFord :: draft where
  "sampleFord = \<lparr>make_field = ''Ford'', model = Some ''Transit 350'',
     year = Num (Fin 2021), vin = ''1FTSE1EL1MJD12345'', mileage = Fin 85000,
     nextServiceMileage = Fin 80000, fuelType = ''Diesel'', status = ''Active''\<rparr>"

definition sampleTesla :: draft where
  "sampleTesla = \<lparr>make_field = ''Tesla'', model = Some ''Model 3'',
     year = Num (Fin 2023), vin = ''5YJSA1E20NF1234567'', mileage = Fin 12000,
     nextServiceMileage = Fin 25000, fuelType = ''Electric'', status = ''Active''\<rparr>"

definition sampleFreightliner :: draft where
  "sampleFreightliner = \<lparr>make_field = ''Freightliner'', model = Some ''Cascadia 126'',
     year = Num (Fin 2019), vin = ''3FLXA9EMXKJ123456'', mileage = Fin 150000,
     nextServiceMileage = Fin 160000, fuelType = ''Diesel'', status = ''In Maintenance''\<rparr>"

definition sampleToyota :: draft where
  "sampleToyota = \<lparr>make_field = ''Toyota'', model = Some ''Tacoma'',
     year = Num (Fin 2020), vin = ''3TMYF5AN6LK123456'', mileage = Fin 45000,
     nextServiceMileage = Fin 55000, fuelType = ''Gasoline'', status = ''Active''\<rparr>"

definition sampleVehicles :: "draft list" where
  "sampleVehicles = [sampleFord, sampleTesla, sampleFreightliner, sampleToyota]"

section \<open>Derived status (lines 13-21)\<close>

datatype badge = Maintenance | ServiceDue | Active

definition getStatusBadge :: "'a draft_scheme \<Rightarrow> badge" where
  "getStatusBadge v =
     (if status v = ''In Maintenance'' then Maintenance
      else if js_ge (mileage v) (nextServiceMileage v) then ServiceDue
      else Active)"

section \<open>Aggregates and the progress bar (lines 214-247)\<close>

definition totalVehicles :: "'a draft_scheme list \<Rightarrow> nat" where
  "totalVehicles vs = length vs"

text \<open>\<open>isActiveVehicle\<close> and \<open>isServiceDue\<close> are the two filter callbacks of lines 215-216.\<close>

definition isActiveVehicle :: "'a draft_scheme \<Rightarrow> bool" where
  "isActiveVehicle v = (status v = ''Active'' \<and> js_lt (mileage v) (nextServiceMileage v))"

definition isServiceDue :: "'a draft_scheme \<Rightarrow> bool" where
  "isServiceDue v =
     (js_ge (mileage v) (nextServiceMileage v) \<or> status v = ''In Maintenance'')"

definition activeVehicles :: "'a draft_scheme list \<Rightarrow> nat" where
  "activeVehicles vs = length (filter isActiveVehicle vs)"

definition serviceDue :: "'a draft_scheme list \<Rightarrow> nat" where
  "serviceDue vs = length (filter isServiceDue vs)"








section \<open>The form (lines 120-165)\<close>



















text \<open>
  The component state (lines 25-40) with the console, and the remote collection. The
  collection keeps every \<open>addDoc\<close> request it received besides the documents it
  stored. \<open>connected\<close> stands for \<open>db && userId\<close>.
\<close>

record app =
  vehicles :: "vehicle list"
  isLoading :: bool
  error :: "string option"
  isModalOpen :: bool
  newVehicle :: draft
  connected :: bool
  console :: "string list"

record store =
  docs :: "vehicle list"
  requests :: "draft list"

definition initialDraft :: draft where
  "initialDraft = \<lparr>make_field = '''', model = Some '''', year = Str '''', vin = '''',
     mileage = Fin 0, nextServiceMileage = Fin 5000, fuelType = ''Diesel'',
     status = ''Active''\<rparr>"

definition initialApp :: app where
  "initialApp = \<lparr>vehicles = [], isLoading = True, error = None, isModalOpen = False,
     newVehicle = initialDraft, connected = False, console = []\<rparr>"

definition emptyStore :: store where
  "emptyStore = \<lparr>docs = [], requests = []\<rparr>"

text \<open>
  \<open>await addDoc(vehiclesRef, payload)\<close>. Whether the store accepts its n-th request is
  the environment's choice \<open>ok n\<close>; an accepted payload is stored with an id and a
  timestamp of the server (here the request's number). \<open>Inl\<close> is the rejected promise.
\<close>

definition addDoc :: "(nat \<Rightarrow> bool) \<Rightarrow> draft \<Rightarrow> store \<Rightarrow> store + store" where
  "addDoc ok payload s =
     (let n = length (requests s); s' = s\<lparr>requests := requests s @ [payload]\<rparr>
      in if ok n
         then Inr (s'\<lparr>docs := docs s @ [draft.extend payload (vehicle.fields n n)]\<rparr>)
         else Inl s')"

text \<open>
  \<open>handleAddVehicle\<close> (lines 128-165). \<open>MissingRequiredField\<close> and
  \<open>MileageInversion\<close> name the messages of its two validation failures; \<open>falsy_opt\<close>
  is \<open>!x\<close> on a text field that may be missing.
\<close>

definition MissingRequiredField :: string where
  "MissingRequiredField = ''Make, Model, and VIN are required.''"

definition MileageInversion :: string where
  "MileageInversion = ''Current Mileage cannot be higher than Next Service Mileage.''"

definition falsy_opt :: "string option \<Rightarrow> bool" where
  "falsy_opt m = (case m of None \<Rightarrow> True | Some s \<Rightarrow> falsy_str s)"

definition handleAddVehicle :: "(nat \<Rightarrow> bool) \<Rightarrow> app \<times> store \<Rightarrow> app \<times> store" where
  "handleAddVehicle ok w =
     (let a = fst w; s = snd w; d = newVehicle a
      in if \<not> connected a then (a\<lparr>error := Some ''Database connection not ready.''\<rparr>, s)
         else if falsy_str (make_field d) \<or> falsy_opt (model d) \<or> falsy_str (vin d)
           then (a\<lparr>error := Some MissingRequiredField\<rparr>, s)
         else if js_gt (mileage d) (nextServiceMileage d)
           then (a\<lparr>error := Some MileageInversion\<rparr>, s)
         else
           (case addDoc ok d s of
              Inr s' \<Rightarrow>
                (a\<lparr>newVehicle := initialDraft, isModalOpen := False, error := None\<rparr>, s')
            | Inl s' \<Rightarrow>
                (a\<lparr>console := console a @ [''Error adding document: ''],
                   error := Some ''Failed to add vehicle to the fleet. Check console.''\<rparr>,
                 s')))"

section \<open>Bulk seeding (lines 168-210)\<close>

text \<open>The loop \<open>for (const vehicle of batch) await addDoc(...)\<close>: the first rejection leaves it.\<close>

fun addAll :: "(nat \<Rightarrow> bool) \<Rightarrow> draft list \<Rightarrow> store \<Rightarrow> store + store" where
  "addAll ok [] s = Inr s"
| "addAll ok (v # vs) s =
     (case addDoc ok v s of Inl s' \<Rightarrow> Inl s' | Inr s' \<Rightarrow> addAll ok vs s')"

text \<open>
  The body of \<open>handleLoadSampleData\<close> with the batch as a parameter; the handler
  itself runs it on \<open>sampleVehicles\<close>. \<open>InsertError\<close> names the message of its
  catch block.
\<close>

definition InsertError :: string where
  "InsertError = ''Failed to load sample data. Check console.''"

definition loadBatch :: "(nat \<Rightarrow> bool) \<Rightarrow> draft list \<Rightarrow> app \<times> store \<Rightarrow> app \<times> store" where
  "loadBatch ok batch w =
     (let a = fst w; s = snd w
      in if \<not> connected a then (a\<lparr>error := Some ''Database connection not ready.''\<rparr>, s)
         else
           (let a1 = a\<lparr>isLoading := True\<rparr>
            in case addAll ok batch s of
                 Inr s' \<Rightarrow> (a1\<lparr>error := Some ''Sample data loaded successfully!''\<rparr>, s')
               | Inl s' \<Rightarrow>
                   (a1\<lparr>console := console a1 @ [''Error loading sample data: ''],
                      error := Some InsertError, isLoading := False\<rparr>,
                    s')))"

definition handleLoadSampleData :: "(nat \<Rightarrow> bool) \<Rightarrow> app \<times> store \<Rightarrow> app \<times> store" where
  "handleLoadSampleData ok w = loadBatch ok sampleVehicles w"

section \<open>The snapshot listener (lines 89-114)\<close>

text \<open>
  \<open>Array.prototype.sort\<close> with a comparison function. ECMAScript requires the sort to
  be stable, and with a consistent comparison function the result is the one sorted
  arrangement that keeps equal elements in their order: insertion from the right, each
  element placed before the first one it does not follow.
\<close>

fun insertSorted :: "('a \<Rightarrow> 'a \<Rightarrow> int) \<Rightarrow> 'a \<Rightarrow> 'a list \<Rightarrow> 'a list" where
  "insertSorted cmp x [] = [x]"
| "insertSorted cmp x (y # ys) =
     (if cmp x y \<le> 0 then x # y # ys else y # insertSorted cmp x ys)"

definition Array_sort :: "('a \<Rightarrow> 'a \<Rightarrow> int) \<Rightarrow> 'a list \<Rightarrow> 'a list" where
  "Array_sort cmp xs = foldr (insertSorted cmp) xs []"

text \<open>\<open>(a.model || '')\<close>.\<close>

definition modelOrEmpty :: "'a draft_scheme \<Rightarrow> string" where
  "modelOrEmpty a = (case model a of None \<Rightarrow> '''' | Some s \<Rightarrow> if falsy_str s then '''' else s)"

text \<open>
  The comparison function of lines 96-101; \<open>urgency\<close> is the expression of
  \<open>statusA\<close> and \<open>statusB\<close>. \<open>String.prototype.localeCompare\<close> depends on the
  host's locale and is the parameter \<open>localeCompare\<close>.
\<close>

definition urgency :: "'a draft_scheme \<Rightarrow> int" where
  "urgency a =
     (if status a = ''In Maintenance'' \<or> js_ge (mileage a) (nextServiceMileage a)
      then 0 else 1)"

definition compareVehicles ::
  "(string \<Rightarrow> string \<Rightarrow> int) \<Rightarrow> 'a draft_scheme \<Rightarrow> 'a draft_scheme \<Rightarrow> int" where
  "compareVehicles localeCompare a b =
     (let statusA = urgency a; statusB = urgency b
      in if statusA \<noteq> statusB then statusA - statusB
         else localeCompare (modelOrEmpty a) (modelOrEmpty b))"


text \<open>
  A delivered snapshot: each document has an id, and \<open>doc.data()\<close> yields its fields
  and timestamp or raises (\<open>None\<close>). \<open>docs.map\<close> stops at the first document that raises.
\<close>

record docSnapshot =
  doc_id :: nat
  doc_data :: "(draft \<times> nat) option"

definition decodeDoc :: "docSnapshot \<Rightarrow> vehicle option" where
  "decodeDoc d =
     (case doc_data d of
        None \<Rightarrow> None
      | Some (payload, t) \<Rightarrow> Some (draft.extend payload (vehicle.fields (doc_id d) t)))"

fun mapDocs :: "docSnapshot list \<Rightarrow> vehicle list option" where
  "mapDocs [] = Some []"
| "mapDocs (d # ds) =
     (case decodeDoc d of
        None \<Rightarrow> None
      | Some v \<Rightarrow> (case mapDocs ds of None \<Rightarrow> None | Some vs \<Rightarrow> Some (v # vs)))"

text \<open>
  The two callbacks given to \<open>onSnapshot\<close>; \<open>DecodeError\<close> names the message of the
  first one's catch block.
\<close>

definition DecodeError :: string where
  "DecodeError = ''Could not load fleet data.''"

definition onSnapshotNext ::
  "(string \<Rightarrow> string \<Rightarrow> int) \<Rightarrow> docSnapshot list \<Rightarrow> app \<Rightarrow> app" where
  "onSnapshotNext localeCompare snapshot a =
     (case mapDocs snapshot of
        Some fetchedVehicles \<Rightarrow>
          a\<lparr>vehicles := Array_sort (compareVehicles localeCompare) fetchedVehicles,
            isLoading := False\<rparr>
      | None \<Rightarrow>
          a\<lparr>console := console a @ [''Error fetching vehicles:''],
            error := Some DecodeError, isLoading := False\<rparr>)"

definition onSnapshotError :: "app \<Rightarrow> app" where
  "onSnapshotError a =
     a\<lparr>console := console a @ [''Firestore subscription error:''],
       error := Some ''Real-time connection failed.'', isLoading := False\<rparr>"

section \<open>Properties\<close>

lemma truncate_extend [simp]: "draft.truncate (draft.extend d x) = d"
  by (simp add: draft.defs)

lemma sel_extend [simp]:
  "status (draft.extend d x) = status d"
  "mileage (draft.extend d x) = mileage d"
  "nextServiceMileage (draft.extend d x) = nextServiceMileage d"
  "model (draft.extend d x) = model d"
  by (simp_all add: draft.defs)

lemma addDoc_ok:
  "ok (length (requests s)) \<Longrightarrow>
     addDoc ok v s = Inr (s\<lparr>requests := requests s @ [v],
        docs := docs s @
          [draft.extend v (vehicle.fields (length (requests s)) (length (requests s)))]\<rparr>)"
  by (simp add: addDoc_def Let_def)

lemma addDoc_fail:
  "\<not> ok (length (requests s)) \<Longrightarrow> addDoc ok v s = Inl (s\<lparr>requests := requests s @ [v]\<rparr>)"
  by (simp add: addDoc_def Let_def)

lemma addAll_first_failure:
  "k < length batch \<Longrightarrow> (\<forall>i<k. ok (length (requests s) + i)) \<Longrightarrow>
   \<not> ok (length (requests s) + k) \<Longrightarrow>
   \<exists>s'. addAll ok batch s = Inl s'
      \<and> requests s' = requests s @ take (Suc k) batch
      \<and> map draft.truncate (docs s') = map draft.truncate (docs s) @ take k batch
      \<and> take (length (docs s)) (docs s') = docs s"
proof (induction batch arbitrary: s k)
  case Nil
  then show ?case by simp
next
  case (Cons v vs)
  show ?case
  proof (cases k)
    case 0
    with Cons.prems show ?thesis by (simp add: addDoc_fail)
  next
    case (Suc k')
    let ?s1 = "s\<lparr>requests := requests s @ [v],
        docs := docs s @
          [draft.extend v (vehicle.fields (length (requests s)) (length (requests s)))]\<rparr>"
    from Cons.prems Suc have ok0: "ok (length (requests s))" by force
    have a: "k' < length vs" using Cons.prems Suc by simp
    have b: "\<forall>i<k'. ok (length (requests ?s1) + i)"
      using Cons.prems(2) Suc by (auto simp: less_Suc_eq_0_disj)
    have c: "\<not> ok (length (requests ?s1) + k')" using Cons.prems(3) Suc by simp
    from Cons.IH[OF a b c] obtain s' where
      s': "addAll ok vs ?s1 = Inl s'" "requests s' = requests ?s1 @ take (Suc k') vs"
        "map draft.truncate (docs s') = map draft.truncate (docs ?s1) @ take k' vs"
        "take (length (docs ?s1)) (docs s') = docs ?s1"
      by blast
    have "take (length (docs s)) (docs s') = docs s"
    proof -
      have "take (length (docs s)) (take (length (docs ?s1)) (docs s')) = docs s"
        unfolding s'(4) by simp
      then show ?thesis by (simp add: min_def)
    qed
    with s' show ?thesis using Suc ok0 by (simp add: addDoc_ok)
  qed
qed

lemma mapDocs_None: "mapDocs snap = None \<longleftrightarrow> (\<exists>d\<in>set snap. doc_data d = None)"
  by (induction snap) (auto simp: decodeDoc_def split: option.splits)

lemma count_partition:
  assumes "\<And>x. \<not> (P x \<and> Q x)"
  shows "length (filter P xs) + length (filter Q xs) \<le> length xs
     \<and> (length (filter P xs) + length (filter Q xs) = length xs
          \<longleftrightarrow> (\<forall>x\<in>set xs. P x \<or> Q x))"
proof (induction xs)
  case Nil
  then show ?case by simp
next
  case (Cons x xs)
  then show ?case using assms[of x] by auto
qed

lemma not_active_and_due: "\<not> (isActiveVehicle v \<and> isServiceDue v)"
  by (auto simp: isActiveVehicle_def isServiceDue_def js_ge_def)

lemma js_lt_irrefl [simp]: "\<not> js_lt a a"
  by (cases a) simp_all

lemma js_lt_NaN_right [simp]: "\<not> js_lt a NaN"
  by (cases a) simp_all































lemma addAll_all_ok:
  "(\<forall>i<length batch. ok (length (requests s) + i)) \<Longrightarrow>
   \<exists>s'. addAll ok batch s = Inr s'
      \<and> requests s' = requests s @ batch
      \<and> map draft.truncate (docs s') = map draft.truncate (docs s) @ batch"
proof (induction batch arbitrary: s)
  case Nil
  then show ?case by simp
next
  case (Cons v vs)
  let ?s1 = "s\<lparr>requests := requests s @ [v],
      docs := docs s @
        [draft.extend v (vehicle.fields (length (requests s)) (length (requests s)))]\<rparr>"
  from Cons.prems have ok0: "ok (length (requests s))" by force
  have b: "\<forall>i<length vs. ok (length (requests ?s1) + i)"
    using Cons.prems by (auto simp: less_Suc_eq_0_disj)
  from Cons.IH[OF b] obtain s' where
    "addAll ok vs ?s1 = Inr s'" "requests s' = requests ?s1 @ vs"
    "map draft.truncate (docs s') = map draft.truncate (docs ?s1) @ vs"
    by blast
  then show ?case using ok0 by (simp add: addDoc_ok)
qed

text \<open>
  C1. The badge is one of three values and depends only on (status, mileage,
  nextServiceMileage): Maintenance whenever status is "In Maintenance", whatever the
  mileages; otherwise Service Due whenever mileage >= nextServiceMileage; otherwise Active.
\<close>

theorem getStatusBadge_cases:
  "(status v = ''In Maintenance'' \<longrightarrow> getStatusBadge v = Maintenance)
   \<and> (status v \<noteq> ''In Maintenance'' \<and> js_ge (mileage v) (nextServiceMileage v)
        \<longrightarrow> getStatusBadge v = ServiceDue)
   \<and> (status v \<noteq> ''In Maintenance'' \<and> \<not> js_ge (mileage v) (nextServiceMileage v)
        \<longrightarrow> getStatusBadge v = Active)
   \<and> (status v = status w \<and> mileage v = mileage w
        \<and> nextServiceMileage v = nextServiceMileage w
      \<longrightarrow> getStatusBadge v = getStatusBadge w)"
  by (simp add: getStatusBadge_def)

theorem getStatusBadge_cases_witness:
  "getStatusBadge sampleFreightliner = Maintenance
   \<and> getStatusBadge sampleFord = ServiceDue
   \<and> getStatusBadge sampleTesla = Active"
  using getStatusBadge_cases [of sampleFreightliner sampleFreightliner]
    getStatusBadge_cases [of sampleFord sampleFord]
    getStatusBadge_cases [of sampleTesla sampleTesla]
  by (simp add: sampleFreightliner_def sampleFord_def sampleTesla_def js_ge_def)






text \<open>
  C4. The validator tests the required fields first (make, model and vin non-empty,
  else MissingRequiredField) and the mileages second (mileage > nextServiceMileage
  gives MileageInversion; for numbers other than NaN that is the failure of
  mileage <= nextServiceMileage). A draft that violates both rules fails with
  MissingRequiredField. On either failure no insert is requested, the store is as it was
  and so is the vehicle view.
\<close>

theorem handleAddVehicle_validation_order:
  assumes "connected a" and "d = newVehicle a"
  shows
    "(falsy_str (make_field d) \<or> falsy_opt (model d) \<or> falsy_str (vin d)
        \<longrightarrow> handleAddVehicle ok (a, s) = (a\<lparr>error := Some MissingRequiredField\<rparr>, s))
     \<and> ((falsy_str (make_field d) \<or> falsy_opt (model d) \<or> falsy_str (vin d))
          \<and> js_gt (mileage d) (nextServiceMileage d)
        \<longrightarrow> error (fst (handleAddVehicle ok (a, s))) = Some MissingRequiredField)
     \<and> (\<not> (falsy_str (make_field d) \<or> falsy_opt (model d) \<or> falsy_str (vin d))
          \<and> js_gt (mileage d) (nextServiceMileage d)
        \<longrightarrow> handleAddVehicle ok (a, s) = (a\<lparr>error := Some MileageInversion\<rparr>, s))
     \<and> (\<not> (falsy_str (make_field d) \<or> falsy_opt (model d) \<or> falsy_str (vin d))
          \<and> \<not> js_gt (mileage d) (nextServiceMileage d)
        \<longrightarrow> requests (snd (handleAddVehicle ok (a, s))) = requests s @ [d]
            \<and> error (fst (handleAddVehicle ok (a, s))) \<noteq> Some MissingRequiredField
            \<and> error (fst (handleAddVehicle ok (a, s))) \<noteq> Some MileageInversion)
     \<and> (mileage d \<noteq> NaN \<and> nextServiceMileage d \<noteq> NaN
        \<longrightarrow> (js_gt (mileage d) (nextServiceMileage d)
              \<longleftrightarrow> \<not> js_le (mileage d) (nextServiceMileage d)))
     \<and> ((falsy_str (make_field d) \<or> falsy_opt (model d) \<or> falsy_str (vin d))
          \<or> js_gt (mileage d) (nextServiceMileage d)
        \<longrightarrow> requests (snd (handleAddVehicle ok (a, s))) = requests s
            \<and> docs (snd (handleAddVehicle ok (a, s))) = docs s
            \<and> vehicles (fst (handleAddVehicle ok (a, s))) = vehicles a)"
  using assms
  by (auto simp: handleAddVehicle_def Let_def addDoc_def js_gt_def js_le_def
      MissingRequiredField_def MileageInversion_def split: sum.splits)

theorem handleAddVehicle_validation_order_witness:
  "handleAddVehicle (\<lambda>n. True)
     (initialApp\<lparr>connected := True,
        newVehicle := initialDraft\<lparr>model := Some ''X'', vin := ''123'',
          mileage := Fin 100, nextServiceMileage := Fin 50\<rparr>\<rparr>, emptyStore)
   = (initialApp\<lparr>connected := True,
        newVehicle := initialDraft\<lparr>model := Some ''X'', vin := ''123'',
          mileage := Fin 100, nextServiceMileage := Fin 50\<rparr>,
        error := Some MissingRequiredField\<rparr>, emptyStore)
   \<and> handleAddVehicle (\<lambda>n. True)
     (initialApp\<lparr>connected := True,
        newVehicle := initialDraft\<lparr>make_field := ''A'', model := Some ''B'', vin := ''C'',
          mileage := Fin 100, nextServiceMileage := Fin 50\<rparr>\<rparr>, emptyStore)
   = (initialApp\<lparr>connected := True,
        newVehicle := initialDraft\<lparr>make_field := ''A'', model := Some ''B'', vin := ''C'',
          mileage := Fin 100, nextServiceMileage := Fin 50\<rparr>,
        error := Some MileageInversion\<rparr>, emptyStore)"
  using
    handleAddVehicle_validation_order [where ok = "\<lambda>n. True" and s = emptyStore
      and a = "initialApp\<lparr>connected := True,
        newVehicle := initialDraft\<lparr>model := Some ''X'', vin := ''123'',
          mileage := Fin 100, nextServiceMileage := Fin 50\<rparr>\<rparr>"
      and d = "initialDraft\<lparr>model := Some ''X'', vin := ''123'',
          mileage := Fin 100, nextServiceMileage := Fin 50\<rparr>"]
    handleAddVehicle_validation_order [where ok = "\<lambda>n. True" and s = emptyStore
      and a = "initialApp\<lparr>connected := True,
        newVehicle := initialDraft\<lparr>make_field := ''A'', model := Some ''B'', vin := ''C'',
          mileage := Fin 100, nextServiceMileage := Fin 50\<rparr>\<rparr>"
      and d = "initialDraft\<lparr>make_field := ''A'', model := Some ''B'', vin := ''C'',
          mileage := Fin 100, nextServiceMileage := Fin 50\<rparr>"]
  by (simp add: initialApp_def initialDraft_def falsy_str_def falsy_opt_def js_gt_def)

text \<open>
  C5. Bulk seeding issues its inserts one after another, each after the previous one
  was accepted. If the insert of the draft at position k (counting from 0) is the first
  to be rejected, the documents stored are the earlier ones followed by the first k
  drafts, nothing is rolled back, the requests issued are those of the first k + 1 drafts
  and no later one, and one error is surfaced: one console line and the message
  InsertError. If every insert is accepted, all drafts are stored in order.
\<close>

theorem loadBatch_sequential:
  assumes "connected a"
  shows "(k < length batch \<and> (\<forall>i<k. ok (length (requests s) + i))
          \<and> \<not> ok (length (requests s) + k)
        \<longrightarrow> requests (snd (loadBatch ok batch (a, s))) = requests s @ take (Suc k) batch
          \<and> map draft.truncate (docs (snd (loadBatch ok batch (a, s))))
              = map draft.truncate (docs s) @ take k batch
          \<and> take (length (docs s)) (docs (snd (loadBatch ok batch (a, s)))) = docs s
          \<and> error (fst (loadBatch ok batch (a, s))) = Some InsertError
          \<and> console (fst (loadBatch ok batch (a, s)))
              = console a @ [''Error loading sample data: '']
          \<and> isLoading (fst (loadBatch ok batch (a, s))) = False
          \<and> vehicles (fst (loadBatch ok batch (a, s))) = vehicles a)
     \<and> ((\<forall>i<length batch. ok (length (requests s) + i))
        \<longrightarrow> requests (snd (loadBatch ok batch (a, s))) = requests s @ batch
          \<and> map draft.truncate (docs (snd (loadBatch ok batch (a, s))))
              = map draft.truncate (docs s) @ batch
          \<and> error (fst (loadBatch ok batch (a, s))) = Some ''Sample data loaded successfully!''
          \<and> console (fst (loadBatch ok batch (a, s))) = console a)"
proof -
  have A: "requests (snd (loadBatch ok batch (a, s))) = requests s @ take (Suc k) batch
          \<and> map draft.truncate (docs (snd (loadBatch ok batch (a, s))))
              = map draft.truncate (docs s) @ take k batch
          \<and> take (length (docs s)) (docs (snd (loadBatch ok batch (a, s)))) = docs s
          \<and> error (fst (loadBatch ok batch (a, s))) = Some InsertError
          \<and> console (fst (loadBatch ok batch (a, s)))
              = console a @ [''Error loading sample data: '']
          \<and> isLoading (fst (loadBatch ok batch (a, s))) = False
          \<and> vehicles (fst (loadBatch ok batch (a, s))) = vehicles a"
    if h: "k < length batch \<and> (\<forall>i<k. ok (length (requests s) + i))
          \<and> \<not> ok (length (requests s) + k)"
  proof -
    from h have h1: "k < length batch" and h2: "\<forall>i<k. ok (length (requests s) + i)"
      and h3: "\<not> ok (length (requests s) + k)" by blast+
    from addAll_first_failure[OF h1 h2 h3] obtain s' where
      "addAll ok batch s = Inl s'" "requests s' = requests s @ take (Suc k) batch"
      "map draft.truncate (docs s') = map draft.truncate (docs s) @ take k batch"
      "take (length (docs s)) (docs s') = docs s"
      by blast
    then show ?thesis using assms by (simp add: loadBatch_def Let_def)
  qed
  have B: "requests (snd (loadBatch ok batch (a, s))) = requests s @ batch
          \<and> map draft.truncate (docs (snd (loadBatch ok batch (a, s))))
              = map draft.truncate (docs s) @ batch
          \<and> error (fst (loadBatch ok batch (a, s))) = Some ''Sample data loaded successfully!''
          \<and> console (fst (loadBatch ok batch (a, s))) = console a"
    if h: "\<forall>i<length batch. ok (length (requests s) + i)"
  proof -
    from addAll_all_ok[OF h] obtain s' where
      "addAll ok batch s = Inr s'" "requests s' = requests s @ batch"
      "map draft.truncate (docs s') = map draft.truncate (docs s) @ batch"
      by blast
    then show ?thesis using assms by (simp add: loadBatch_def Let_def)
  qed
  show ?thesis
    by (rule conjI) (rule impI, erule A, rule impI, erule B)
qed

theorem loadBatch_sequential_witness:
  "requests (snd (handleLoadSampleData (\<lambda>n. n \<noteq> 2)
       (initialApp\<lparr>connected := True\<rparr>, emptyStore)))
     = [sampleFord, sampleTesla, sampleFreightliner]
   \<and> map draft.truncate (docs (snd (handleLoadSampleData (\<lambda>n. n \<noteq> 2)
         (initialApp\<lparr>connected := True\<rparr>, emptyStore))))
     = [sampleFord, sampleTesla]
   \<and> error (fst (handleLoadSampleData (\<lambda>n. n \<noteq> 2)
       (initialApp\<lparr>connected := True\<rparr>, emptyStore)))
     = Some InsertError
   \<and> console (fst (handleLoadSampleData (\<lambda>n. n \<noteq> 2)
       (initialApp\<lparr>connected := True\<rparr>, emptyStore)))
     = [''Error loading sample data: '']
   \<and> map draft.truncate (docs (snd (handleLoadSampleData (\<lambda>n. True)
         (initialApp\<lparr>connected := True\<rparr>, emptyStore))))
     = sampleVehicles"
  using loadBatch_sequential [where a = "initialApp\<lparr>connected := True\<rparr>"
      and k = 2 and batch = sampleVehicles and s = emptyStore and ok = "\<lambda>n. n \<noteq> 2"]
    loadBatch_sequential [where a = "initialApp\<lparr>connected := True\<rparr>"
      and batch = sampleVehicles and s = emptyStore and ok = "\<lambda>n. True"]
  by (simp add: handleLoadSampleData_def sampleVehicles_def initialApp_def emptyStore_def
      less_Suc_eq numeral_2_eq_2)

text \<open>
  C6. When decoding a delivered snapshot raises (some document's data cannot be read),
  the listener surfaces DecodeError and the vehicle view it held stays exactly as it was.
  The subscription's error callback keeps the view as well.
\<close>

theorem decode_failure_keeps_view:
  assumes "\<exists>d\<in>set snapshot. doc_data d = None"
  shows "vehicles (onSnapshotNext localeCompare snapshot a) = vehicles a
     \<and> error (onSnapshotNext localeCompare snapshot a) = Some DecodeError
     \<and> console (onSnapshotNext localeCompare snapshot a)
         = console a @ [''Error fetching vehicles:'']
     \<and> isLoading (onSnapshotNext localeCompare snapshot a) = False
     \<and> vehicles (onSnapshotError a) = vehicles a"
  using assms mapDocs_None[of snapshot] by (simp add: onSnapshotNext_def onSnapshotError_def)

theorem decode_failure_keeps_view_witness:
  "vehicles (onSnapshotNext (\<lambda>x y. 0)
      [\<lparr>doc_id = 0, doc_data = Some (sampleFord, 0)\<rparr>, \<lparr>doc_id = 1, doc_data = None\<rparr>]
      (initialApp\<lparr>vehicles := [draft.extend sampleTesla (vehicle.fields 7 7)]\<rparr>))
     = [draft.extend sampleTesla (vehicle.fields 7 7)]
   \<and> error (onSnapshotNext (\<lambda>x y. 0)
      [\<lparr>doc_id = 0, doc_data = Some (sampleFord, 0)\<rparr>, \<lparr>doc_id = 1, doc_data = None\<rparr>]
      (initialApp\<lparr>vehicles := [draft.extend sampleTesla (vehicle.fields 7 7)]\<rparr>))
     = Some DecodeError"
  using decode_failure_keeps_view [where localeCompare = "\<lambda>x y. 0"
      and snapshot = "[\<lparr>doc_id = 0, doc_data = Some (sampleFord, 0)\<rparr>,
          \<lparr>doc_id = 1, doc_data = None\<rparr>]"
      and a = "initialApp\<lparr>vehicles := [draft.extend sampleTesla (vehicle.fields 7 7)]\<rparr>"]
  by simp






text \<open>
  C9 (as amended). No record is counted by both activeVehicles and serviceDue, so
  activeVehicles + serviceDue <= totalVehicles. Equality holds exactly when every record
  is counted by one of them: its status is "In Maintenance", or its
  mileage >= nextServiceMileage, or its status is "Active" with
  mileage < nextServiceMileage. For records whose mileages are not NaN that is: every
  record's status is "Active" or "In Maintenance", or its mileage >= nextServiceMileage.
\<close>

theorem counts_disjoint:
  "\<not> (isActiveVehicle v \<and> isServiceDue v)
   \<and> activeVehicles vs + serviceDue vs \<le> totalVehicles vs
   \<and> (activeVehicles vs + serviceDue vs = totalVehicles vs \<longleftrightarrow>
        (\<forall>v\<in>set vs. status v = ''In Maintenance''
            \<or> js_ge (mileage v) (nextServiceMileage v)
            \<or> (status v = ''Active'' \<and> js_lt (mileage v) (nextServiceMileage v))))
   \<and> ((\<forall>v\<in>set vs. mileage v \<noteq> NaN \<and> nextServiceMileage v \<noteq> NaN) \<longrightarrow>
        (activeVehicles vs + serviceDue vs = totalVehicles vs \<longleftrightarrow>
          (\<forall>v\<in>set vs. status v = ''Active'' \<or> status v = ''In Maintenance''
            \<or> js_ge (mileage v) (nextServiceMileage v))))"
proof -
  have eq: "(activeVehicles vs + serviceDue vs = totalVehicles vs) =
     (\<forall>v\<in>set vs. isActiveVehicle v \<or> isServiceDue v)"
    and le: "activeVehicles vs + serviceDue vs \<le> totalVehicles vs"
    using count_partition[of isActiveVehicle isServiceDue vs] not_active_and_due
    unfolding activeVehicles_def serviceDue_def totalVehicles_def by blast+
  show ?thesis
    using not_active_and_due[of v] le unfolding eq
    by (auto simp: isActiveVehicle_def isServiceDue_def js_ge_def)
qed

theorem counts_disjoint_witness:
  "activeVehicles sampleVehicles = 2 \<and> serviceDue sampleVehicles = 2
   \<and> totalVehicles sampleVehicles = 4
   \<and> activeVehicles sampleVehicles + serviceDue sampleVehicles = totalVehicles sampleVehicles"
  using counts_disjoint [of sampleFord sampleVehicles]
  by (simp add: sampleVehicles_def sampleFord_def sampleTesla_def sampleFreightliner_def
      sampleToyota_def activeVehicles_def serviceDue_def totalVehicles_def
      isActiveVehicle_def isServiceDue_def js_ge_def)

text \<open>
  C9 as stated fails in both directions. A record with another status whose mileage has
  reached nextServiceMileage is counted by serviceDue, so equality holds without every
  status being "Active" or "In Maintenance"; and an "Active" record whose mileage is NaN
  is counted by neither.
\<close>

theorem counts_equality_counterexample:
  "activeVehicles [sampleFord\<lparr>status := ''Retired''\<rparr>]
     + serviceDue [sampleFord\<lparr>status := ''Retired''\<rparr>]
     = totalVehicles [sampleFord\<lparr>status := ''Retired''\<rparr>]
   \<and> status (sampleFord\<lparr>status := ''Retired''\<rparr>) \<noteq> ''Active''
   \<and> status (sampleFord\<lparr>status := ''Retired''\<rparr>) \<noteq> ''In Maintenance''
   \<and> status (sampleTesla\<lparr>mileage := NaN\<rparr>) = ''Active''
   \<and> activeVehicles [sampleTesla\<lparr>mileage := NaN\<rparr>]
     + serviceDue [sampleTesla\<lparr>mileage := NaN\<rparr>]
     < totalVehicles [sampleTesla\<lparr>mileage := NaN\<rparr>]"
  by (simp add: sampleFord_def sampleTesla_def activeVehicles_def serviceDue_def
      totalVehicles_def isActiveVehicle_def isServiceDue_def js_ge_def)




end
